theory Spec2Isabelle
  imports Main
begin

section \<open>Data model\<close>

text \<open>
  Go maps from label keys to label values (\<^verbatim>\<open>map[string]string\<close>) are association
  lists read with \<open>map_of\<close>; the nil map and the empty map are both \<open>[]\<close>
  (\<^verbatim>\<open>len\<close> is 0 for both, and a lookup finds nothing in both).
  A nil slice and an empty slice are both \<open>[]\<close> for the same reason.
\<close>

type_synonym labelmap = "(string \<times> string) list"

text \<open>The enum \<^verbatim>\<open>PeerAuthentication_MutualTLS_Mode\<close> and its \<^verbatim>\<open>String()\<close>.\<close>

datatype PeerAuthentication_MutualTLS_Mode = PA_UNSET | PA_DISABLE | PA_PERMISSIVE | PA_STRICT

fun PA_Mode_String :: "PeerAuthentication_MutualTLS_Mode \<Rightarrow> string" where
  "PA_Mode_String PA_UNSET = ''UNSET''"
| "PA_Mode_String PA_DISABLE = ''DISABLE''"
| "PA_Mode_String PA_PERMISSIVE = ''PERMISSIVE''"
| "PA_Mode_String PA_STRICT = ''STRICT''"

text \<open>The enum \<^verbatim>\<open>ClientTLSSettings_TLSmode\<close> and its \<^verbatim>\<open>String()\<close>.\<close>

datatype ClientTLSSettings_TLSmode = DR_DISABLE | DR_SIMPLE | DR_MUTUAL | DR_ISTIO_MUTUAL

fun DR_Mode_String :: "ClientTLSSettings_TLSmode \<Rightarrow> string" where
  "DR_Mode_String DR_DISABLE = ''DISABLE''"
| "DR_Mode_String DR_SIMPLE = ''SIMPLE''"
| "DR_Mode_String DR_MUTUAL = ''MUTUAL''"
| "DR_Mode_String DR_ISTIO_MUTUAL = ''ISTIO_MUTUAL''"

text \<open>
  \<^verbatim>\<open>WorkloadSelector\<close>: only \<^verbatim>\<open>MatchLabels\<close> is read. \<^verbatim>\<open>Spec.Selector\<close> is a pointer,
  so a PeerAuthentication holds an optional selector; \<^verbatim>\<open>Spec.Mtls\<close> is a pointer to a
  struct whose only field read is \<^verbatim>\<open>Mode\<close>.
\<close>

record WorkloadSelector =
  MatchLabels :: labelmap

record PeerAuthentication =
  pa_Name :: string
  pa_Namespace :: string
  pa_Selector :: "WorkloadSelector option"
  pa_Mtls :: "PeerAuthentication_MutualTLS_Mode option"

text \<open>
  \<^verbatim>\<open>DestinationRule\<close>: \<^verbatim>\<open>Spec.TrafficPolicy\<close> and its \<^verbatim>\<open>Tls\<close> are pointers; of the TLS
  settings only \<^verbatim>\<open>Mode\<close> is read.
\<close>

record TrafficPolicy =
  Tls :: "ClientTLSSettings_TLSmode option"

record DestinationRule =
  dr_Name :: string
  dr_Namespace :: string
  dr_Host :: string
  dr_TrafficPolicy :: "TrafficPolicy option"

text \<open>\<^verbatim>\<open>core_v1.Service\<close>, with the fields the code reads and its declared ports.\<close>

record ServicePort =
  port_Name :: string
  port_Protocol :: string
  port_Port :: int

record Service =
  svc_Name :: string
  svc_Namespace :: string
  svc_Annotations :: labelmap
  svc_Selector :: labelmap
  svc_Ports :: "ServicePort list"

text \<open>Of the configuration only \<^verbatim>\<open>ExternalServices.Istio.IstioIdentityDomain\<close> is read.\<close>

record Config =
  IstioIdentityDomain :: string

section \<open>util/mtls/status.go\<close>

definition MTLSEnabled :: string where "MTLSEnabled = ''MTLS_ENABLED''"
definition MTLSPartiallyEnabled :: string where "MTLSPartiallyEnabled = ''MTLS_PARTIALLY_ENABLED''"
definition MTLSNotEnabled :: string where "MTLSNotEnabled = ''MTLS_NOT_ENABLED''"
definition MTLSDisabled :: string where "MTLSDisabled = ''MTLS_DISABLED''"

text \<open>\<^verbatim>\<open>MatchingLabels\<close> has the interface type \<^verbatim>\<open>labels.Labels\<close>; the contexts hold a
  \<^verbatim>\<open>labels.Set\<close> there, which is a map from keys to values.\<close>

record MtlsStatus =
  AllowPermissive :: bool
  AutoMtlsEnabled :: bool
  DestinationRules :: "DestinationRule list"
  MatchingLabels :: labelmap
  PeerAuthentications :: "PeerAuthentication list"
  Services :: "Service list"

record TlsStatus =
  DestinationRuleStatus :: string
  PeerAuthenticationStatus :: string
  OverallStatus :: string

text \<open>The zero value \<^verbatim>\<open>TlsStatus{}\<close>.\<close>

definition TlsStatus_zero :: TlsStatus where
  "TlsStatus_zero =
     \<lparr>DestinationRuleStatus = '''', PeerAuthenticationStatus = '''', OverallStatus = ''''\<rparr>"

definition finalStatus :: "MtlsStatus \<Rightarrow> string \<Rightarrow> string \<Rightarrow> TlsStatus" where
  "finalStatus m drStatus paStatus =
     (let mtlsEnabled = (drStatus = ''ISTIO_MUTUAL'' \<or> drStatus = ''MUTUAL''
                          \<or> (drStatus = '''' \<and> AutoMtlsEnabled m));
          mtlsDisabled = (drStatus = ''DISABLE'' \<or> (drStatus = '''' \<and> AutoMtlsEnabled m));
          finalStatus0 = MTLSPartiallyEnabled;
          finalStatus1 =
            (if (paStatus = ''STRICT'' \<or> (paStatus = ''PERMISSIVE'' \<and> AllowPermissive m))
                \<and> mtlsEnabled
             then MTLSEnabled
             else if paStatus = ''DISABLE'' \<and> mtlsDisabled then MTLSDisabled
             else if paStatus = '''' \<and> drStatus = '''' then MTLSNotEnabled
             else finalStatus0)
      in \<lparr>DestinationRuleStatus = drStatus,
          PeerAuthenticationStatus = paStatus,
          OverallStatus = finalStatus1\<rparr>)"

definition hasDefinedTls :: "TlsStatus \<Rightarrow> bool" where
  "hasDefinedTls t = (OverallStatus t = MTLSEnabled \<or> OverallStatus t = MTLSDisabled)"

definition hasPartialTlsConfig :: "TlsStatus \<Rightarrow> bool" where
  "hasPartialTlsConfig t = (OverallStatus t = MTLSPartiallyEnabled)"

definition hasHalfTlsConfigDefined :: "TlsStatus \<Rightarrow> bool \<Rightarrow> bool \<Rightarrow> bool" where
  "hasHalfTlsConfigDefined t autoMtls allowPermissive =
     (let defined0 = False;
          defined1 =
            (if autoMtls
             then (let d = ((PeerAuthenticationStatus t = ''STRICT'' \<and> DestinationRuleStatus t = '''')
                            \<or> ((DestinationRuleStatus t = ''ISTIO_MUTUAL''
                                  \<or> DestinationRuleStatus t = ''MUTUAL'')
                                 \<and> PeerAuthenticationStatus t = ''''))
                   in if \<not> d \<and> allowPermissive
                      then (PeerAuthenticationStatus t = ''PERMISSIVE''
                            \<and> DestinationRuleStatus t = '''')
                      else d)
             else defined0)
      in defined1)"

definition hasNoConfig :: "TlsStatus \<Rightarrow> bool" where
  "hasNoConfig t = (PeerAuthenticationStatus t = '''' \<and> DestinationRuleStatus t = '''')"

definition hasPartialDisabledConfig :: "TlsStatus \<Rightarrow> bool" where
  "hasPartialDisabledConfig t =
     ((PeerAuthenticationStatus t = ''DISABLE'' \<and> DestinationRuleStatus t = '''')
      \<or> (DestinationRuleStatus t = ''DISABLE'' \<and> PeerAuthenticationStatus t = ''''))"

text \<open>
  \<^verbatim>\<open>OverallMtlsStatus\<close> and \<^verbatim>\<open>inheritedOverallStatus\<close> call each other. The call from
  \<^verbatim>\<open>OverallMtlsStatus\<close> happens only for a namespace status that is partial, and the call
  back passes \<^verbatim>\<open>TlsStatus{}\<close>, which is not; this is the termination argument.
\<close>

function OverallMtlsStatus :: "MtlsStatus \<Rightarrow> TlsStatus \<Rightarrow> TlsStatus \<Rightarrow> string"
  and inheritedOverallStatus :: "MtlsStatus \<Rightarrow> TlsStatus \<Rightarrow> TlsStatus \<Rightarrow> string"
where
  "OverallMtlsStatus m nsStatus meshStatus =
     (if hasDefinedTls nsStatus then OverallStatus nsStatus
      else if hasPartialTlsConfig nsStatus then inheritedOverallStatus m nsStatus meshStatus
      else if hasDefinedTls meshStatus then OverallStatus meshStatus
      else if hasNoConfig meshStatus then MTLSNotEnabled
      else if hasPartialDisabledConfig meshStatus then MTLSDisabled
      else if hasHalfTlsConfigDefined meshStatus (AutoMtlsEnabled m) (AllowPermissive m)
        then MTLSEnabled
      else if \<not> AutoMtlsEnabled m \<and> hasPartialTlsConfig meshStatus then MTLSPartiallyEnabled
      else MTLSPartiallyEnabled)"
| "inheritedOverallStatus m nsStatus meshStatus =
     (let partialDRStatus =
            (if DestinationRuleStatus nsStatus = '''' then DestinationRuleStatus meshStatus
             else DestinationRuleStatus nsStatus);
          partialPAStatus =
            (if PeerAuthenticationStatus nsStatus = '''' then PeerAuthenticationStatus meshStatus
             else PeerAuthenticationStatus nsStatus)
      in OverallMtlsStatus m TlsStatus_zero (finalStatus m partialDRStatus partialPAStatus))"
  by pat_completeness auto
termination
  by (relation "measure (\<lambda>x. case x of
          Inl (m, ns, mesh) \<Rightarrow> (if hasPartialTlsConfig ns then 2 else 0)
        | Inr (m, ns, mesh) \<Rightarrow> 1)")
     (auto simp: hasPartialTlsConfig_def TlsStatus_zero_def MTLSPartiallyEnabled_def)

text \<open>
  The same pair of functions with an explicit bound on the depth of nested calls: each
  call of either function uses one unit, and \<open>None\<close> is a call chain cut off by the bound.
\<close>

fun OverallMtlsStatus_depth :: "nat \<Rightarrow> MtlsStatus \<Rightarrow> TlsStatus \<Rightarrow> TlsStatus \<Rightarrow> string option"
  and inheritedOverallStatus_depth :: "nat \<Rightarrow> MtlsStatus \<Rightarrow> TlsStatus \<Rightarrow> TlsStatus \<Rightarrow> string option"
where
  "OverallMtlsStatus_depth 0 m nsStatus meshStatus = None"
| "OverallMtlsStatus_depth (Suc n) m nsStatus meshStatus =
     (if hasDefinedTls nsStatus then Some (OverallStatus nsStatus)
      else if hasPartialTlsConfig nsStatus then inheritedOverallStatus_depth n m nsStatus meshStatus
      else if hasDefinedTls meshStatus then Some (OverallStatus meshStatus)
      else if hasNoConfig meshStatus then Some MTLSNotEnabled
      else if hasPartialDisabledConfig meshStatus then Some MTLSDisabled
      else if hasHalfTlsConfigDefined meshStatus (AutoMtlsEnabled m) (AllowPermissive m)
        then Some MTLSEnabled
      else if \<not> AutoMtlsEnabled m \<and> hasPartialTlsConfig meshStatus then Some MTLSPartiallyEnabled
      else Some MTLSPartiallyEnabled)"
| "inheritedOverallStatus_depth 0 m nsStatus meshStatus = None"
| "inheritedOverallStatus_depth (Suc n) m nsStatus meshStatus =
     (let partialDRStatus =
            (if DestinationRuleStatus nsStatus = '''' then DestinationRuleStatus meshStatus
             else DestinationRuleStatus nsStatus);
          partialPAStatus =
            (if PeerAuthenticationStatus nsStatus = '''' then PeerAuthenticationStatus meshStatus
             else PeerAuthenticationStatus nsStatus)
      in OverallMtlsStatus_depth n m TlsStatus_zero (finalStatus m partialDRStatus partialPAStatus))"

section \<open>kubernetes/istio.go\<close>

subsection \<open>Library functions on strings\<close>

text \<open>
  Strings are byte lists, as in Go. \<^verbatim>\<open>strings.TrimSpace\<close> removes the leading and the
  trailing runes for which \<^verbatim>\<open>unicode.IsSpace\<close> holds. \<open>spaceEncodings\<close> lists the UTF-8
  encodings of these runes: U+0009 to U+000D, U+0020, U+0085, U+00A0, U+1680, U+2000 to
  U+200A, U+2028, U+2029, U+202F, U+205F and U+3000. No encoding begins or ends another
  one, so the rune at either end of a string is a white space exactly when one of the
  encodings is a prefix, or a suffix, of the string; bytes that are no valid UTF-8 decode
  to U+FFFD, which is no white space, and the trimming stops there.
\<close>

definition spaceEncodings :: "string list" where
  "spaceEncodings =
     [[CHR 0x09], [CHR 0x0A], [CHR 0x0B], [CHR 0x0C], [CHR 0x0D], [CHR 0x20],
      [CHR 0xC2, CHR 0x85], [CHR 0xC2, CHR 0xA0],
      [CHR 0xE1, CHR 0x9A, CHR 0x80],
      [CHR 0xE2, CHR 0x80, CHR 0x80], [CHR 0xE2, CHR 0x80, CHR 0x81],
      [CHR 0xE2, CHR 0x80, CHR 0x82], [CHR 0xE2, CHR 0x80, CHR 0x83],
      [CHR 0xE2, CHR 0x80, CHR 0x84], [CHR 0xE2, CHR 0x80, CHR 0x85],
      [CHR 0xE2, CHR 0x80, CHR 0x86], [CHR 0xE2, CHR 0x80, CHR 0x87],
      [CHR 0xE2, CHR 0x80, CHR 0x88], [CHR 0xE2, CHR 0x80, CHR 0x89],
      [CHR 0xE2, CHR 0x80, CHR 0x8A],
      [CHR 0xE2, CHR 0x80, CHR 0xA8], [CHR 0xE2, CHR 0x80, CHR 0xA9],
      [CHR 0xE2, CHR 0x80, CHR 0xAF],
      [CHR 0xE2, CHR 0x81, CHR 0x9F],
      [CHR 0xE3, CHR 0x80, CHR 0x80]]"

text \<open>The encoding, among \<open>encs\<close>, that the string begins with.\<close>

definition leadingRune :: "string list \<Rightarrow> string \<Rightarrow> string option" where
  "leadingRune encs s = List.find (\<lambda>p. p \<noteq> [] \<and> take (length p) s = p) encs"

text \<open>\<^verbatim>\<open>strings.TrimLeftFunc\<close>: drop leading runes as long as there is one of \<open>encs\<close>.\<close>

function trimLeftRunes :: "string list \<Rightarrow> string \<Rightarrow> string" where
  "trimLeftRunes encs s =
     (case leadingRune encs s of
        None \<Rightarrow> s
      | Some p \<Rightarrow> trimLeftRunes encs (drop (length p) s))"
  by pat_completeness auto
termination
proof (relation "measure (\<lambda>(encs, s). length s)")
  show "wf (measure (\<lambda>(encs :: string list, s :: string). length s))" by simp
next
  fix encs :: "string list" and s p :: string
  assume "leadingRune encs s = Some p"
  then have p: "p \<noteq> []" "take (length p) s = p"
    by (auto simp: leadingRune_def find_Some_iff)
  have "length (take (length p) s) = length p" using p by simp
  then have "length p \<le> length s" by simp
  then have "length s - length p < length s" using p(1) by (cases p) simp_all
  then show "((encs, drop (length p) s), (encs, s)) \<in> measure (\<lambda>(encs, s). length s)"
    by simp
qed

declare trimLeftRunes.simps [simp del]

text \<open>The trailing runes are trimmed on the reversed string, with the reversed encodings.\<close>

definition strings_TrimSpace :: "string \<Rightarrow> string" where
  "strings_TrimSpace s =
     rev (trimLeftRunes (map rev spaceEncodings) (rev (trimLeftRunes spaceEncodings s)))"

text \<open>
  \<^verbatim>\<open>strings.ToLower\<close> maps \<open>A\<close>..\<open>Z\<close> to \<open>a\<close>..\<open>z\<close> byte by byte when every byte of
  the string is below \<^verbatim>\<open>0x80\<close>; for any other string it returns
  \<^verbatim>\<open>Map(unicode.ToLower, s)\<close>, which lowers the letters of every script and replaces
  invalid UTF-8 by U+FFFD. The tables of \<^verbatim>\<open>unicode.ToLower\<close> are no part of this
  development: the argument \<open>mapToLower\<close> stands for that function, and what is proved
  below holds for every function in its place.
\<close>

definition toLower_char :: "char \<Rightarrow> char" where
  "toLower_char c =
     (case map_of (zip ''ABCDEFGHIJKLMNOPQRSTUVWXYZ'' ''abcdefghijklmnopqrstuvwxyz'') c of
        Some l \<Rightarrow> l
      | None \<Rightarrow> c)"

definition strings_ToLower :: "(string \<Rightarrow> string) \<Rightarrow> string \<Rightarrow> string" where
  "strings_ToLower mapToLower s =
     (if list_all (\<lambda>c. of_char c < (128::nat)) s then map toLower_char s
      else mapToLower s)"

definition strings_HasPrefix :: "string \<Rightarrow> string \<Rightarrow> bool" where
  "strings_HasPrefix s pre = (length pre \<le> length s \<and> take (length pre) s = pre)"

text \<open>\<^verbatim>\<open>strings.Split(s, sep)\<close> for a separator of one byte: the empty string gives one empty
  segment, and \<open>n\<close> separators give \<open>n + 1\<close> segments.\<close>

fun strings_Split :: "string \<Rightarrow> char \<Rightarrow> string list" where
  "strings_Split [] sep = [[]]"
| "strings_Split (c # cs) sep =
     (if c = sep then [] # strings_Split cs sep
      else (case strings_Split cs sep of
              [] \<Rightarrow> [[c]]
            | seg # segs \<Rightarrow> (c # seg) # segs))"

subsection \<open>KubeServiceHosts\<close>

definition ExportToAnnotation :: string where
  "ExportToAnnotation = ''networking.istio.io/exportTo''"

record kubeServiceEntry =
  exportTo :: "string list"
  namespace :: string

text \<open>
  \<^verbatim>\<open>entries map[string]*kubeServiceEntry\<close> holds pointers. The entries allocated by
  \<^verbatim>\<open>NewKubeServiceHosts\<close> live in \<open>store\<close>, in the order of their allocation, and a pointer
  is the position of its entry there; two keys share an entry when they hold the same
  pointer.
\<close>

record KubeServiceHosts =
  entries :: "string \<rightharpoonup> nat"
  store :: "kubeServiceEntry list"

definition parseExportToAnnotation :: "string \<Rightarrow> string list" where
  "parseExportToAnnotation annotation =
     (let parts = strings_Split annotation (CHR '','')
      in foldl (\<lambda>result p0. (let p = strings_TrimSpace p0
                               in if p \<noteq> '''' then result @ [p] else result))
           [] parts)"

text \<open>The three keys of a service, as the three \<^verbatim>\<open>fmt.Sprintf\<close> calls build them.\<close>

definition fqdn_key :: "string \<Rightarrow> Service \<Rightarrow> string" where
  "fqdn_key clusterDomain svc = svc_Name svc @ ''.'' @ svc_Namespace svc @ ''.'' @ clusterDomain"

definition shortFqdn_key :: "Service \<Rightarrow> string" where
  "shortFqdn_key svc = svc_Name svc @ ''.'' @ svc_Namespace svc @ ''.svc''"

definition twoPart_key :: "Service \<Rightarrow> string" where
  "twoPart_key svc = svc_Name svc @ ''.'' @ svc_Namespace svc"

text \<open>The entry the loop body builds for one service.\<close>

definition newEntry :: "string list \<Rightarrow> Service \<Rightarrow> kubeServiceEntry" where
  "newEntry defaultExportTo svc =
     (let entry = \<lparr>exportTo = [], namespace = svc_Namespace svc\<rparr>
      in (case map_of (svc_Annotations svc) ExportToAnnotation of
            Some ann \<Rightarrow> entry\<lparr>exportTo := parseExportToAnnotation ann\<rparr>
          | None \<Rightarrow> entry\<lparr>exportTo := defaultExportTo\<rparr>))"

text \<open>One iteration of the loop of \<^verbatim>\<open>NewKubeServiceHosts\<close>: allocate the entry, then store
  its pointer under the three keys, in the order of the source.\<close>

definition NewKubeServiceHosts_body ::
  "string \<Rightarrow> string list \<Rightarrow> KubeServiceHosts \<Rightarrow> Service \<Rightarrow> KubeServiceHosts" where
  "NewKubeServiceHosts_body clusterDomain defaultExportTo h svc =
     (let entry = length (store h);
          fqdn = fqdn_key clusterDomain svc;
          shortFqdn = shortFqdn_key svc;
          twoPart = twoPart_key svc
      in \<lparr>entries = (entries h)(fqdn \<mapsto> entry, shortFqdn \<mapsto> entry, twoPart \<mapsto> entry),
          store = store h @ [newEntry defaultExportTo svc]\<rparr>)"

definition NewKubeServiceHosts ::
  "Service list \<Rightarrow> Config \<Rightarrow> string list \<Rightarrow> KubeServiceHosts" where
  "NewKubeServiceHosts services conf defaultExportTo =
     (let clusterDomain = IstioIdentityDomain conf
      in foldl (NewKubeServiceHosts_body clusterDomain defaultExportTo)
           \<lparr>entries = Map.empty, store = []\<rparr> services)"

definition KubeServiceFQDNs :: "Service list \<Rightarrow> Config \<Rightarrow> KubeServiceHosts" where
  "KubeServiceFQDNs services conf = NewKubeServiceHosts services conf []"


fun IsExportedTo_loop :: "string list \<Rightarrow> string \<Rightarrow> string \<Rightarrow> bool" where
  "IsExportedTo_loop [] resourceNamespace viewerNamespace = False"
| "IsExportedTo_loop (export # rest) resourceNamespace viewerNamespace =
     (if export = ''*'' then True
      else if export = ''.'' then
        (if resourceNamespace = viewerNamespace then True
         else IsExportedTo_loop rest resourceNamespace viewerNamespace)
      else if export = ''~'' then IsExportedTo_loop rest resourceNamespace viewerNamespace
      else (if export = viewerNamespace then True
            else IsExportedTo_loop rest resourceNamespace viewerNamespace))"

definition IsExportedTo :: "string list \<Rightarrow> string \<Rightarrow> string \<Rightarrow> bool" where
  "IsExportedTo exportTo_list resourceNamespace viewerNamespace =
     (if length exportTo_list = 0 then True
      else IsExportedTo_loop exportTo_list resourceNamespace viewerNamespace)"


subsection \<open>Port names\<close>

text \<open>
  \<^verbatim>\<open>portNameMatcher\<close> is the regular expression \<^verbatim>\<open>^[\-].*\<close>: the text must begin with a
  dash, and \<^verbatim>\<open>.*\<close> also matches the empty rest, so \<^verbatim>\<open>MatchString\<close> holds exactly for
  the strings whose first byte is a dash.
\<close>

definition portNameMatcher_MatchString :: "string \<Rightarrow> bool" where
  "portNameMatcher_MatchString s = (case s of [] \<Rightarrow> False | c # rest \<Rightarrow> c = CHR ''-'')"

definition MatchPortNameRule :: "(string \<Rightarrow> string) \<Rightarrow> string \<Rightarrow> string \<Rightarrow> bool" where
  "MatchPortNameRule mapToLower portName protocol0 =
     (let protocol = strings_ToLower mapToLower protocol0
      in if protocol = ''tcp'' \<or> protocol = ''udp'' then True
         else if \<not> strings_HasPrefix portName protocol then False
         else if length portName > length protocol
           then (let restPortName = drop (length protocol) portName
                 in portNameMatcher_MatchString restPortName)
         else True)"

subsection \<open>PeerAuthentication and DestinationRule modes\<close>

definition PeerAuthnMTLSMode :: "PeerAuthentication \<Rightarrow> bool \<times> string" where
  "PeerAuthnMTLSMode peerAuthn =
     (case pa_Mtls peerAuthn of
        Some m \<Rightarrow> (let mode = PA_Mode_String m
                   in (mode = ''STRICT'' \<or> mode = ''PERMISSIVE'', mode))
      | None \<Rightarrow> (False, ''''))"

definition PeerAuthnHasMTLSEnabled :: "PeerAuthentication \<Rightarrow> bool \<times> string" where
  "PeerAuthnHasMTLSEnabled peerAuthn =
     (case pa_Selector peerAuthn of
        Some sel \<Rightarrow> (if length (MatchLabels sel) \<ge> 0 then (False, '''')
                     else PeerAuthnMTLSMode peerAuthn)
      | None \<Rightarrow> PeerAuthnMTLSMode peerAuthn)"

definition DestinationRuleHasMTLSEnabled :: "DestinationRule \<Rightarrow> bool \<times> string" where
  "DestinationRuleHasMTLSEnabled destinationRule =
     (case dr_TrafficPolicy destinationRule of
        Some tp \<Rightarrow>
          (case Tls tp of
             Some m \<Rightarrow> (let mode = DR_Mode_String m in (mode = ''ISTIO_MUTUAL'', mode))
           | None \<Rightarrow> (False, ''''))
      | None \<Rightarrow> (False, ''''))"

definition DestinationRuleHasMTLSEnabledForHost :: "string \<Rightarrow> DestinationRule \<Rightarrow> bool \<times> string" where
  "DestinationRuleHasMTLSEnabledForHost expectedHost destinationRule =
     (if dr_Host destinationRule = '''' \<or> dr_Host destinationRule \<noteq> expectedHost
      then (False, '''')
      else DestinationRuleHasMTLSEnabled destinationRule)"

definition DestinationRuleHasNamespaceWideMTLSEnabled ::
  "string \<Rightarrow> DestinationRule \<Rightarrow> Config \<Rightarrow> bool \<times> string" where
  "DestinationRuleHasNamespaceWideMTLSEnabled ns destinationRule conf =
     (let nsHost = ''*.'' @ ns @ ''.'' @ IstioIdentityDomain conf
      in DestinationRuleHasMTLSEnabledForHost nsHost destinationRule)"

section \<open>util/mtls/status.go: the scans and the workload status\<close>

fun hasPeerAuthnNamespacemTLSDefinition_loop :: "PeerAuthentication list \<Rightarrow> string" where
  "hasPeerAuthnNamespacemTLSDefinition_loop [] = ''''"
| "hasPeerAuthnNamespacemTLSDefinition_loop (p # ps) =
     (let mode = snd (PeerAuthnHasMTLSEnabled p)
      in if mode \<noteq> '''' then mode else hasPeerAuthnNamespacemTLSDefinition_loop ps)"

definition hasPeerAuthnNamespacemTLSDefinition :: "MtlsStatus \<Rightarrow> string" where
  "hasPeerAuthnNamespacemTLSDefinition m =
     hasPeerAuthnNamespacemTLSDefinition_loop (PeerAuthentications m)"

fun hasDesinationRuleEnablingNamespacemTLS_loop ::
  "string \<Rightarrow> Config \<Rightarrow> DestinationRule list \<Rightarrow> string" where
  "hasDesinationRuleEnablingNamespacemTLS_loop ns conf [] = ''''"
| "hasDesinationRuleEnablingNamespacemTLS_loop ns conf (dr # drs) =
     (let mode = snd (DestinationRuleHasNamespaceWideMTLSEnabled ns dr conf)
      in if mode \<noteq> '''' then mode else hasDesinationRuleEnablingNamespacemTLS_loop ns conf drs)"

definition hasDesinationRuleEnablingNamespacemTLS :: "MtlsStatus \<Rightarrow> string \<Rightarrow> Config \<Rightarrow> string" where
  "hasDesinationRuleEnablingNamespacemTLS m ns conf =
     hasDesinationRuleEnablingNamespacemTLS_loop ns conf (DestinationRules m)"

definition NamespaceMtlsStatus :: "MtlsStatus \<Rightarrow> string \<Rightarrow> Config \<Rightarrow> TlsStatus" where
  "NamespaceMtlsStatus m ns conf =
     (let drStatus = hasDesinationRuleEnablingNamespacemTLS m ns conf;
          paStatus = hasPeerAuthnNamespacemTLSDefinition m
      in finalStatus m drStatus paStatus)"

fun hasPeerAuthnMeshTLSDefinition_loop :: "PeerAuthentication list \<Rightarrow> string" where
  "hasPeerAuthnMeshTLSDefinition_loop [] = ''''"
| "hasPeerAuthnMeshTLSDefinition_loop (mp # mps) =
     (let mode = snd (PeerAuthnHasMTLSEnabled mp)
      in if mode \<noteq> '''' then mode else hasPeerAuthnMeshTLSDefinition_loop mps)"

definition hasPeerAuthnMeshTLSDefinition :: "MtlsStatus \<Rightarrow> string" where
  "hasPeerAuthnMeshTLSDefinition m = hasPeerAuthnMeshTLSDefinition_loop (PeerAuthentications m)"

fun hasDestinationRuleMeshTLSDefinition_loop :: "DestinationRule list \<Rightarrow> string" where
  "hasDestinationRuleMeshTLSDefinition_loop [] = ''''"
| "hasDestinationRuleMeshTLSDefinition_loop (dr # drs) =
     (let mode = snd (DestinationRuleHasMTLSEnabledForHost ''*.local'' dr)
      in if mode \<noteq> '''' then mode else hasDestinationRuleMeshTLSDefinition_loop drs)"

definition hasDestinationRuleMeshTLSDefinition :: "MtlsStatus \<Rightarrow> string" where
  "hasDestinationRuleMeshTLSDefinition m =
     hasDestinationRuleMeshTLSDefinition_loop (DestinationRules m)"

definition MeshMtlsStatus :: "MtlsStatus \<Rightarrow> TlsStatus" where
  "MeshMtlsStatus m =
     (let drStatus = hasDestinationRuleMeshTLSDefinition m;
          paStatus = hasPeerAuthnMeshTLSDefinition m
      in \<lparr>DestinationRuleStatus = drStatus,
          PeerAuthenticationStatus = paStatus,
          OverallStatus = OverallMtlsStatus m TlsStatus_zero (finalStatus m drStatus paStatus)\<rparr>)"

text \<open>
  \<^verbatim>\<open>labels.Set(selectorLabels).AsSelector().Matches(ls)\<close> of the Kubernetes library: the
  selector built from a label set has one equality requirement for each of its pairs, and
  it matches a label set that has every one of these keys with the same value.
\<close>

definition selector_Matches :: "labelmap \<Rightarrow> labelmap \<Rightarrow> bool" where
  "selector_Matches selectorLabels ls = list_all (\<lambda>(k, v). map_of ls k = Some v) selectorLabels"

text \<open>
  \<^verbatim>\<open>kubernetes.FilterDestinationRulesByService\<close> lies outside the files modelled here;
  the workload status takes it as the parameter \<open>filterDRs\<close> (destination rules, namespace
  and name of the service, configuration), and what is proved holds for every filter.
\<close>

type_synonym drfilter = "DestinationRule list \<Rightarrow> string \<Rightarrow> string \<Rightarrow> Config \<Rightarrow> DestinationRule list"

text \<open>The innermost loop, over the filtered destination rules; \<open>Some\<close> is a \<^verbatim>\<open>return\<close>.\<close>

fun WorkloadMtlsStatus_drs :: "DestinationRule list \<Rightarrow> string option" where
  "WorkloadMtlsStatus_drs [] = None"
| "WorkloadMtlsStatus_drs (dr # drs) =
     (let enabled = fst (DestinationRuleHasMTLSEnabled dr);
          mode = snd (DestinationRuleHasMTLSEnabled dr)
      in if enabled \<or> mode = ''MUTUAL'' then Some MTLSEnabled
         else if mode = ''DISABLE'' then Some MTLSDisabled
         else WorkloadMtlsStatus_drs drs)"

text \<open>The loop over the services, for a PERMISSIVE policy; \<open>Some\<close> is a \<^verbatim>\<open>return\<close>.\<close>

fun WorkloadMtlsStatus_svcs ::
  "drfilter \<Rightarrow> Config \<Rightarrow> MtlsStatus \<Rightarrow> string \<Rightarrow> labelmap \<Rightarrow> Service list \<Rightarrow> string option" where
  "WorkloadMtlsStatus_svcs filterDRs conf m ns selectorLabels [] = None"
| "WorkloadMtlsStatus_svcs filterDRs conf m ns selectorLabels (svc # svcs) =
     (if svc_Namespace svc \<noteq> ns \<or> length (svc_Selector svc) = 0
      then WorkloadMtlsStatus_svcs filterDRs conf m ns selectorLabels svcs
      else if selector_Matches selectorLabels (svc_Selector svc)
      then (let filteredDrs = filterDRs (DestinationRules m) (svc_Namespace svc) (svc_Name svc) conf
            in (case WorkloadMtlsStatus_drs filteredDrs of
                  Some status \<Rightarrow> Some status
                | None \<Rightarrow> WorkloadMtlsStatus_svcs filterDRs conf m ns selectorLabels svcs))
      else WorkloadMtlsStatus_svcs filterDRs conf m ns selectorLabels svcs)"

text \<open>The loop over the PeerAuthentications; each recursive call is a \<^verbatim>\<open>continue\<close> or the
  end of a \<^verbatim>\<open>switch\<close> that took no case.\<close>

fun WorkloadMtlsStatus_pas ::
  "drfilter \<Rightarrow> Config \<Rightarrow> MtlsStatus \<Rightarrow> string \<Rightarrow> PeerAuthentication list \<Rightarrow> string" where
  "WorkloadMtlsStatus_pas filterDRs conf m ns [] = MTLSNotEnabled"
| "WorkloadMtlsStatus_pas filterDRs conf m ns (pa # pas) =
     (case pa_Selector pa of
        None \<Rightarrow> WorkloadMtlsStatus_pas filterDRs conf m ns pas
      | Some sel \<Rightarrow>
          (let selectorLabels = MatchLabels sel
           in if length selectorLabels = 0 then WorkloadMtlsStatus_pas filterDRs conf m ns pas
              else if \<not> selector_Matches selectorLabels (MatchingLabels m)
                then WorkloadMtlsStatus_pas filterDRs conf m ns pas
              else (let mode = snd (PeerAuthnMTLSMode pa)
                    in if mode = ''STRICT'' then MTLSEnabled
                       else if mode = ''DISABLE'' then MTLSDisabled
                       else if mode = ''PERMISSIVE'' then
                         (if length (DestinationRules m) = 0 then MTLSNotEnabled
                          else (case WorkloadMtlsStatus_svcs filterDRs conf m ns selectorLabels
                                       (Services m) of
                                  Some status \<Rightarrow> status
                                | None \<Rightarrow> MTLSNotEnabled))
                       else WorkloadMtlsStatus_pas filterDRs conf m ns pas)))"

definition WorkloadMtlsStatus :: "drfilter \<Rightarrow> MtlsStatus \<Rightarrow> string \<Rightarrow> Config \<Rightarrow> string" where
  "WorkloadMtlsStatus filterDRs m ns conf =
     WorkloadMtlsStatus_pas filterDRs conf m ns (PeerAuthentications m)"

section \<open>Notions used in the statements\<close>

text \<open>
  The reading of the namespace-level \<open>paStatus\<close> in which a policy's selector is not
  consulted: the first non-empty mode that \<^verbatim>\<open>PeerAuthnMTLSMode\<close> gives along the list.
  It is compared with what \<^verbatim>\<open>NamespaceMtlsStatus\<close> computes.
\<close>

fun paStatus_without_selector_check :: "PeerAuthentication list \<Rightarrow> string" where
  "paStatus_without_selector_check [] = ''''"
| "paStatus_without_selector_check (p # ps) =
     (let mode = snd (PeerAuthnMTLSMode p)
      in if mode \<noteq> '''' then mode else paStatus_without_selector_check ps)"

text \<open>The set of the three keys of a service, and strings without a dot (Kubernetes names
  of services and namespaces are DNS labels, which have none).\<close>

definition serviceKeys :: "string \<Rightarrow> Service \<Rightarrow> string set" where
  "serviceKeys clusterDomain svc = {fqdn_key clusterDomain svc, shortFqdn_key svc, twoPart_key svc}"


section \<open>Fixtures of the test files\<close>

text \<open>\<^verbatim>\<open>config.NewConfig()\<close>: the tests find \<^verbatim>\<open>reviews.bookinfo.svc.cluster.local\<close> under it.\<close>

definition NewConfig :: Config where
  "NewConfig = \<lparr>IstioIdentityDomain = ''svc.cluster.local''\<rparr>"

fun parsePAMode :: "string \<Rightarrow> PeerAuthentication_MutualTLS_Mode" where
  "parsePAMode mode =
     (if mode = ''STRICT'' then PA_STRICT
      else if mode = ''PERMISSIVE'' then PA_PERMISSIVE
      else if mode = ''DISABLE'' then PA_DISABLE
      else PA_UNSET)"

definition peerAuthnWithSelector ::
  "string \<Rightarrow> string \<Rightarrow> labelmap \<Rightarrow> string \<Rightarrow> PeerAuthentication" where
  "peerAuthnWithSelector name ns selectorLabels mode =
     \<lparr>pa_Name = name, pa_Namespace = ns,
      pa_Selector = Some \<lparr>MatchLabels = selectorLabels\<rparr>,
      pa_Mtls = Some (parsePAMode mode)\<rparr>"

definition peerAuthnNoSelector :: "string \<Rightarrow> string \<Rightarrow> string \<Rightarrow> PeerAuthentication" where
  "peerAuthnNoSelector name ns mode =
     \<lparr>pa_Name = name, pa_Namespace = ns, pa_Selector = None, pa_Mtls = Some (parsePAMode mode)\<rparr>"

definition k8sService :: "string \<Rightarrow> string \<Rightarrow> labelmap \<Rightarrow> Service" where
  "k8sService name ns selector =
     \<lparr>svc_Name = name, svc_Namespace = ns, svc_Annotations = [], svc_Selector = selector,
      svc_Ports = []\<rparr>"


text \<open>A filter of destination rules that keeps every rule, for evaluating the workload
  status where the filter plays no part.\<close>

definition keepAllDRs :: drfilter where
  "keepAllDRs drs ns name conf = drs"

text \<open>The context of \<^verbatim>\<open>TestWorkloadMtlsStatusNilMatchLabelsSkipped\<close>.\<close>

definition nilMatchLabelsStatus :: MtlsStatus where
  "nilMatchLabelsStatus =
     \<lparr>AllowPermissive = False, AutoMtlsEnabled = False, DestinationRules = [],
      MatchingLabels = [(''app'', ''reviews'')],
      PeerAuthentications = [peerAuthnWithSelector ''pa-expressions'' ''bookinfo'' [] ''STRICT''],
      Services = [k8sService ''reviews'' ''bookinfo'' [(''app'', ''reviews'')]]\<rparr>"

text \<open>A context whose only PeerAuthentication is STRICT and selects \<open>app=reviews\<close>.\<close>

definition selectorStrictStatus :: MtlsStatus where
  "selectorStrictStatus =
     \<lparr>AllowPermissive = False, AutoMtlsEnabled = False, DestinationRules = [],
      MatchingLabels = [(''app'', ''reviews'')],
      PeerAuthentications =
        [peerAuthnWithSelector ''pa1'' ''bookinfo'' [(''app'', ''reviews'')] ''STRICT''],
      Services = []\<rparr>"

text \<open>A context whose only PeerAuthentication is STRICT and has no selector.\<close>

definition noSelectorStrictStatus :: MtlsStatus where
  "noSelectorStrictStatus =
     \<lparr>AllowPermissive = False, AutoMtlsEnabled = False, DestinationRules = [],
      MatchingLabels = [],
      PeerAuthentications = [peerAuthnNoSelector ''pa-ns'' ''bookinfo'' ''STRICT''],
      Services = []\<rparr>"

section \<open>Resolve: the decision table of \<^verbatim>\<open>finalStatus\<close>\<close>

text \<open>
  C1. For every pair of status strings and every setting of the two booleans,
  \<^verbatim>\<open>finalStatus\<close> keeps both input strings and computes the overall status by the decision
  table: ENABLED when the peer-authentication status is STRICT (or PERMISSIVE with
  permissive allowed) and mTLS is enabled on the destination-rule side; otherwise DISABLED
  when the peer-authentication status is DISABLE and mTLS is disabled on the
  destination-rule side; otherwise NOT_ENABLED when both strings are empty; otherwise
  PARTIALLY_ENABLED.
\<close>

theorem finalStatus_decision_table:
  "finalStatus m drStatus paStatus =
     \<lparr>DestinationRuleStatus = drStatus,
      PeerAuthenticationStatus = paStatus,
      OverallStatus =
        (if (paStatus = ''STRICT'' \<or> (paStatus = ''PERMISSIVE'' \<and> AllowPermissive m))
            \<and> (drStatus \<in> {''ISTIO_MUTUAL'', ''MUTUAL''} \<or> (drStatus = '''' \<and> AutoMtlsEnabled m))
         then ''MTLS_ENABLED''
         else if paStatus = ''DISABLE''
                 \<and> (drStatus = ''DISABLE'' \<or> (drStatus = '''' \<and> AutoMtlsEnabled m))
         then ''MTLS_DISABLED''
         else if paStatus = '''' \<and> drStatus = '''' then ''MTLS_NOT_ENABLED''
         else ''MTLS_PARTIALLY_ENABLED'')\<rparr>"
  unfolding finalStatus_def Let_def MTLSEnabled_def MTLSDisabled_def MTLSNotEnabled_def
    MTLSPartiallyEnabled_def
  by simp

section \<open>Overall: precedence and termination\<close>

declare OverallMtlsStatus.simps [simp del] inheritedOverallStatus.simps [simp del]

lemma TlsStatus_zero_not_defined: "\<not> hasDefinedTls TlsStatus_zero"
  by (simp add: hasDefinedTls_def TlsStatus_zero_def MTLSEnabled_def MTLSDisabled_def)

lemma TlsStatus_zero_not_partial: "\<not> hasPartialTlsConfig TlsStatus_zero"
  by (simp add: hasPartialTlsConfig_def TlsStatus_zero_def MTLSPartiallyEnabled_def)

lemma OverallMtlsStatus_depth_zero_ns:
  "OverallMtlsStatus_depth (Suc n) m TlsStatus_zero meshStatus
     = Some (OverallMtlsStatus m TlsStatus_zero meshStatus)"
  by (simp add: OverallMtlsStatus.simps [of m TlsStatus_zero meshStatus]
        TlsStatus_zero_not_defined TlsStatus_zero_not_partial)

lemma inheritedOverallStatus_depth_two:
  "inheritedOverallStatus_depth (Suc (Suc n)) m nsStatus meshStatus
     = Some (inheritedOverallStatus m nsStatus meshStatus)"
  by (simp only: inheritedOverallStatus_depth.simps inheritedOverallStatus.simps Let_def
        OverallMtlsStatus_depth_zero_ns)

lemma OverallMtlsStatus_depth_three:
  "OverallMtlsStatus_depth (Suc (Suc (Suc n))) m nsStatus meshStatus
     = Some (OverallMtlsStatus m nsStatus meshStatus)"
  by (simp add: OverallMtlsStatus.simps [of m nsStatus meshStatus] inheritedOverallStatus_depth_two
        del: inheritedOverallStatus_depth.simps)

lemma OverallMtlsStatus_zero_ns:
  "OverallMtlsStatus m TlsStatus_zero h =
     (if hasDefinedTls h then OverallStatus h
      else if hasNoConfig h then MTLSNotEnabled
      else if hasPartialDisabledConfig h then MTLSDisabled
      else if hasHalfTlsConfigDefined h (AutoMtlsEnabled m) (AllowPermissive m) then MTLSEnabled
      else MTLSPartiallyEnabled)"
  by (simp add: OverallMtlsStatus.simps [of m TlsStatus_zero h] TlsStatus_zero_not_defined
        TlsStatus_zero_not_partial)

lemma half_prop:
  "(if a then (if \<not> (A \<or> B) \<and> p then X else (A \<or> B)) else False) \<longleftrightarrow> a \<and> (A \<or> B \<or> (p \<and> X))"
  by auto

lemma status_cases:
  "(if E \<or> D then (if E then en else if D then di else if N then ne else pa)
    else if N then ne else if PD then di else if H then en else pa)
   = (if E then en else if D then di else if N then ne else if PD then di else if H then en else pa)"
  by simp

lemma OverallMtlsStatus_zero_finalStatus:
  "OverallMtlsStatus m TlsStatus_zero (finalStatus m dr pa) =
     (if (pa = ''STRICT'' \<or> (pa = ''PERMISSIVE'' \<and> AllowPermissive m))
         \<and> (dr = ''ISTIO_MUTUAL'' \<or> dr = ''MUTUAL'' \<or> (dr = '''' \<and> AutoMtlsEnabled m))
      then ''MTLS_ENABLED''
      else if pa = ''DISABLE'' \<and> (dr = ''DISABLE'' \<or> (dr = '''' \<and> AutoMtlsEnabled m))
      then ''MTLS_DISABLED''
      else if pa = '''' \<and> dr = '''' then ''MTLS_NOT_ENABLED''
      else if (pa = ''DISABLE'' \<and> dr = '''') \<or> (dr = ''DISABLE'' \<and> pa = '''')
      then ''MTLS_DISABLED''
      else if AutoMtlsEnabled m
              \<and> ((pa = ''STRICT'' \<and> dr = '''')
                 \<or> ((dr = ''ISTIO_MUTUAL'' \<or> dr = ''MUTUAL'') \<and> pa = '''')
                 \<or> (AllowPermissive m \<and> pa = ''PERMISSIVE'' \<and> dr = ''''))
      then ''MTLS_ENABLED''
      else ''MTLS_PARTIALLY_ENABLED'')"
proof -
  let ?h = "finalStatus m dr pa"
  define E where "E \<longleftrightarrow> (pa = ''STRICT'' \<or> (pa = ''PERMISSIVE'' \<and> AllowPermissive m))
         \<and> (dr = ''ISTIO_MUTUAL'' \<or> dr = ''MUTUAL'' \<or> (dr = '''' \<and> AutoMtlsEnabled m))"
  define D where "D \<longleftrightarrow> pa = ''DISABLE'' \<and> (dr = ''DISABLE'' \<or> (dr = '''' \<and> AutoMtlsEnabled m))"
  define N where "N \<longleftrightarrow> pa = '''' \<and> dr = ''''"
  define PD where "PD \<longleftrightarrow> (pa = ''DISABLE'' \<and> dr = '''') \<or> (dr = ''DISABLE'' \<and> pa = '''')"
  define H where "H \<longleftrightarrow> AutoMtlsEnabled m
              \<and> ((pa = ''STRICT'' \<and> dr = '''')
                 \<or> ((dr = ''ISTIO_MUTUAL'' \<or> dr = ''MUTUAL'') \<and> pa = '''')
                 \<or> (AllowPermissive m \<and> pa = ''PERMISSIVE'' \<and> dr = ''''))"
  have fields: "DestinationRuleStatus ?h = dr" "PeerAuthenticationStatus ?h = pa"
    by (simp_all add: finalStatus_def Let_def)
  have os: "OverallStatus ?h = (if E then ''MTLS_ENABLED'' else if D then ''MTLS_DISABLED''
                else if N then ''MTLS_NOT_ENABLED'' else ''MTLS_PARTIALLY_ENABLED'')"
    unfolding E_def D_def N_def finalStatus_def Let_def MTLSEnabled_def MTLSDisabled_def
      MTLSNotEnabled_def MTLSPartiallyEnabled_def
    by simp
  have hd: "hasDefinedTls ?h \<longleftrightarrow> E \<or> D"
    unfolding hasDefinedTls_def os MTLSEnabled_def MTLSDisabled_def by simp
  have hn: "hasNoConfig ?h \<longleftrightarrow> N"
    unfolding hasNoConfig_def fields N_def ..
  have pd: "hasPartialDisabledConfig ?h \<longleftrightarrow> PD"
    unfolding hasPartialDisabledConfig_def fields PD_def ..
  have hh: "hasHalfTlsConfigDefined ?h (AutoMtlsEnabled m) (AllowPermissive m) \<longleftrightarrow> H"
    unfolding hasHalfTlsConfigDefined_def Let_def fields H_def by (rule half_prop)
  have "OverallMtlsStatus m TlsStatus_zero ?h
      = (if E then ''MTLS_ENABLED'' else if D then ''MTLS_DISABLED''
         else if N then ''MTLS_NOT_ENABLED'' else if PD then ''MTLS_DISABLED''
         else if H then ''MTLS_ENABLED'' else ''MTLS_PARTIALLY_ENABLED'')"
    unfolding OverallMtlsStatus_zero_ns hd hn pd hh os MTLSEnabled_def MTLSDisabled_def
      MTLSNotEnabled_def MTLSPartiallyEnabled_def
    by (rule status_cases)
  then show ?thesis unfolding E_def D_def N_def PD_def H_def .
qed

lemma OverallMtlsStatus_zero_table:
  "OverallMtlsStatus m TlsStatus_zero h =
     (if OverallStatus h = ''MTLS_ENABLED'' \<or> OverallStatus h = ''MTLS_DISABLED''
      then OverallStatus h
      else if PeerAuthenticationStatus h = '''' \<and> DestinationRuleStatus h = ''''
      then ''MTLS_NOT_ENABLED''
      else if (PeerAuthenticationStatus h = ''DISABLE'' \<and> DestinationRuleStatus h = '''')
              \<or> (DestinationRuleStatus h = ''DISABLE'' \<and> PeerAuthenticationStatus h = '''')
      then ''MTLS_DISABLED''
      else if AutoMtlsEnabled m
              \<and> ((PeerAuthenticationStatus h = ''STRICT'' \<and> DestinationRuleStatus h = '''')
                 \<or> ((DestinationRuleStatus h = ''ISTIO_MUTUAL'' \<or> DestinationRuleStatus h = ''MUTUAL'')
                    \<and> PeerAuthenticationStatus h = '''')
                 \<or> (AllowPermissive m \<and> PeerAuthenticationStatus h = ''PERMISSIVE''
                    \<and> DestinationRuleStatus h = ''''))
      then ''MTLS_ENABLED''
      else ''MTLS_PARTIALLY_ENABLED'')"
proof -
  have hh: "hasHalfTlsConfigDefined h (AutoMtlsEnabled m) (AllowPermissive m)
      \<longleftrightarrow> AutoMtlsEnabled m
              \<and> ((PeerAuthenticationStatus h = ''STRICT'' \<and> DestinationRuleStatus h = '''')
                 \<or> ((DestinationRuleStatus h = ''ISTIO_MUTUAL'' \<or> DestinationRuleStatus h = ''MUTUAL'')
                    \<and> PeerAuthenticationStatus h = '''')
                 \<or> (AllowPermissive m \<and> PeerAuthenticationStatus h = ''PERMISSIVE''
                    \<and> DestinationRuleStatus h = ''''))"
    unfolding hasHalfTlsConfigDefined_def Let_def by (rule half_prop)
  show ?thesis
    unfolding OverallMtlsStatus_zero_ns hh
    unfolding hasDefinedTls_def hasNoConfig_def hasPartialDisabledConfig_def MTLSEnabled_def
      MTLSDisabled_def MTLSNotEnabled_def MTLSPartiallyEnabled_def ..
qed

text \<open>
  C2. \<^verbatim>\<open>OverallMtlsStatus\<close> returns the overall status of the namespace whenever that is
  ENABLED or DISABLED, whatever the mesh status. For a namespace status that is
  PARTIALLY_ENABLED it replaces only the empty fields of the namespace pair by the
  fields of the mesh, runs \<^verbatim>\<open>finalStatus\<close> on the hybrid pair \<open>dr\<close>, \<open>pa\<close>, and returns
  \<^verbatim>\<open>OverallMtlsStatus\<close> of the empty namespace status and that result, which is: the
  status \<^verbatim>\<open>finalStatus\<close> gives when that is ENABLED or DISABLED; else NOT_ENABLED when
  both are empty; else DISABLED when one is DISABLE and the other empty; else ENABLED
  when, under auto mTLS, the pair is one of the half-defined combinations; else
  PARTIALLY_ENABLED. The last conjunct gives \<^verbatim>\<open>OverallMtlsStatus\<close> of the empty namespace
  status for every mesh status.
\<close>

theorem OverallMtlsStatus_namespace_first:
  "((OverallStatus nsStatus = ''MTLS_ENABLED'' \<or> OverallStatus nsStatus = ''MTLS_DISABLED'')
      \<longrightarrow> OverallMtlsStatus m nsStatus meshStatus = OverallStatus nsStatus)
   \<and> (OverallStatus nsStatus = ''MTLS_PARTIALLY_ENABLED''
      \<longrightarrow> (let dr = (if DestinationRuleStatus nsStatus = '''' then DestinationRuleStatus meshStatus
                      else DestinationRuleStatus nsStatus);
               pa = (if PeerAuthenticationStatus nsStatus = '''' then PeerAuthenticationStatus meshStatus
                      else PeerAuthenticationStatus nsStatus)
           in OverallMtlsStatus m TlsStatus_zero (finalStatus m dr pa)
                = OverallMtlsStatus m nsStatus meshStatus
            \<and> OverallMtlsStatus m nsStatus meshStatus
                = (if (pa = ''STRICT'' \<or> (pa = ''PERMISSIVE'' \<and> AllowPermissive m))
                      \<and> (dr = ''ISTIO_MUTUAL'' \<or> dr = ''MUTUAL'' \<or> (dr = '''' \<and> AutoMtlsEnabled m))
                   then ''MTLS_ENABLED''
                   else if pa = ''DISABLE'' \<and> (dr = ''DISABLE'' \<or> (dr = '''' \<and> AutoMtlsEnabled m))
                   then ''MTLS_DISABLED''
                   else if pa = '''' \<and> dr = '''' then ''MTLS_NOT_ENABLED''
                   else if (pa = ''DISABLE'' \<and> dr = '''') \<or> (dr = ''DISABLE'' \<and> pa = '''')
                   then ''MTLS_DISABLED''
                   else if AutoMtlsEnabled m
                           \<and> ((pa = ''STRICT'' \<and> dr = '''')
                              \<or> ((dr = ''ISTIO_MUTUAL'' \<or> dr = ''MUTUAL'') \<and> pa = '''')
                              \<or> (AllowPermissive m \<and> pa = ''PERMISSIVE'' \<and> dr = ''''))
                   then ''MTLS_ENABLED''
                   else ''MTLS_PARTIALLY_ENABLED'')))
   \<and> OverallMtlsStatus m TlsStatus_zero meshStatus
       = (if OverallStatus meshStatus = ''MTLS_ENABLED'' \<or> OverallStatus meshStatus = ''MTLS_DISABLED''
          then OverallStatus meshStatus
          else if PeerAuthenticationStatus meshStatus = '''' \<and> DestinationRuleStatus meshStatus = ''''
          then ''MTLS_NOT_ENABLED''
          else if (PeerAuthenticationStatus meshStatus = ''DISABLE''
                    \<and> DestinationRuleStatus meshStatus = '''')
                  \<or> (DestinationRuleStatus meshStatus = ''DISABLE''
                    \<and> PeerAuthenticationStatus meshStatus = '''')
          then ''MTLS_DISABLED''
          else if AutoMtlsEnabled m
                  \<and> ((PeerAuthenticationStatus meshStatus = ''STRICT''
                        \<and> DestinationRuleStatus meshStatus = '''')
                     \<or> ((DestinationRuleStatus meshStatus = ''ISTIO_MUTUAL''
                          \<or> DestinationRuleStatus meshStatus = ''MUTUAL'')
                        \<and> PeerAuthenticationStatus meshStatus = '''')
                     \<or> (AllowPermissive m \<and> PeerAuthenticationStatus meshStatus = ''PERMISSIVE''
                        \<and> DestinationRuleStatus meshStatus = ''''))
          then ''MTLS_ENABLED''
          else ''MTLS_PARTIALLY_ENABLED'')"
proof (intro conjI impI)
  assume "OverallStatus nsStatus = ''MTLS_ENABLED'' \<or> OverallStatus nsStatus = ''MTLS_DISABLED''"
  then have "hasDefinedTls nsStatus"
    by (simp add: hasDefinedTls_def MTLSEnabled_def MTLSDisabled_def)
  then show "OverallMtlsStatus m nsStatus meshStatus = OverallStatus nsStatus"
    by (simp add: OverallMtlsStatus.simps [of m nsStatus meshStatus])
next
  assume p: "OverallStatus nsStatus = ''MTLS_PARTIALLY_ENABLED''"
  define dr where "dr = (if DestinationRuleStatus nsStatus = '''' then DestinationRuleStatus meshStatus
                      else DestinationRuleStatus nsStatus)"
  define pa where "pa = (if PeerAuthenticationStatus nsStatus = '''' then PeerAuthenticationStatus meshStatus
                      else PeerAuthenticationStatus nsStatus)"
  from p have "\<not> hasDefinedTls nsStatus" "hasPartialTlsConfig nsStatus"
    by (simp_all add: hasDefinedTls_def hasPartialTlsConfig_def MTLSEnabled_def MTLSDisabled_def
          MTLSPartiallyEnabled_def)
  then have step: "OverallMtlsStatus m nsStatus meshStatus
          = OverallMtlsStatus m TlsStatus_zero (finalStatus m dr pa)"
    unfolding dr_def pa_def
    by (simp add: OverallMtlsStatus.simps [of m nsStatus meshStatus]
          inheritedOverallStatus.simps Let_def)
  show "let dr = (if DestinationRuleStatus nsStatus = '''' then DestinationRuleStatus meshStatus
                      else DestinationRuleStatus nsStatus);
               pa = (if PeerAuthenticationStatus nsStatus = '''' then PeerAuthenticationStatus meshStatus
                      else PeerAuthenticationStatus nsStatus)
           in OverallMtlsStatus m TlsStatus_zero (finalStatus m dr pa)
                = OverallMtlsStatus m nsStatus meshStatus
            \<and> OverallMtlsStatus m nsStatus meshStatus
                = (if (pa = ''STRICT'' \<or> (pa = ''PERMISSIVE'' \<and> AllowPermissive m))
                      \<and> (dr = ''ISTIO_MUTUAL'' \<or> dr = ''MUTUAL'' \<or> (dr = '''' \<and> AutoMtlsEnabled m))
                   then ''MTLS_ENABLED''
                   else if pa = ''DISABLE'' \<and> (dr = ''DISABLE'' \<or> (dr = '''' \<and> AutoMtlsEnabled m))
                   then ''MTLS_DISABLED''
                   else if pa = '''' \<and> dr = '''' then ''MTLS_NOT_ENABLED''
                   else if (pa = ''DISABLE'' \<and> dr = '''') \<or> (dr = ''DISABLE'' \<and> pa = '''')
                   then ''MTLS_DISABLED''
                   else if AutoMtlsEnabled m
                           \<and> ((pa = ''STRICT'' \<and> dr = '''')
                              \<or> ((dr = ''ISTIO_MUTUAL'' \<or> dr = ''MUTUAL'') \<and> pa = '''')
                              \<or> (AllowPermissive m \<and> pa = ''PERMISSIVE'' \<and> dr = ''''))
                   then ''MTLS_ENABLED''
                   else ''MTLS_PARTIALLY_ENABLED'')"
    unfolding Let_def dr_def [symmetric] pa_def [symmetric]
    using step OverallMtlsStatus_zero_finalStatus [of m dr pa] by (simp only: simp_thms)
next
  show "OverallMtlsStatus m TlsStatus_zero meshStatus
       = (if OverallStatus meshStatus = ''MTLS_ENABLED'' \<or> OverallStatus meshStatus = ''MTLS_DISABLED''
          then OverallStatus meshStatus
          else if PeerAuthenticationStatus meshStatus = '''' \<and> DestinationRuleStatus meshStatus = ''''
          then ''MTLS_NOT_ENABLED''
          else if (PeerAuthenticationStatus meshStatus = ''DISABLE''
                    \<and> DestinationRuleStatus meshStatus = '''')
                  \<or> (DestinationRuleStatus meshStatus = ''DISABLE''
                    \<and> PeerAuthenticationStatus meshStatus = '''')
          then ''MTLS_DISABLED''
          else if AutoMtlsEnabled m
                  \<and> ((PeerAuthenticationStatus meshStatus = ''STRICT''
                        \<and> DestinationRuleStatus meshStatus = '''')
                     \<or> ((DestinationRuleStatus meshStatus = ''ISTIO_MUTUAL''
                          \<or> DestinationRuleStatus meshStatus = ''MUTUAL'')
                        \<and> PeerAuthenticationStatus meshStatus = '''')
                     \<or> (AllowPermissive m \<and> PeerAuthenticationStatus meshStatus = ''PERMISSIVE''
                        \<and> DestinationRuleStatus meshStatus = ''''))
          then ''MTLS_ENABLED''
          else ''MTLS_PARTIALLY_ENABLED'')"
    by (rule OverallMtlsStatus_zero_table)
qed

text \<open>
  The theorem at four inputs, auto mTLS off: a namespace that is DISABLED under a mesh
  that is ENABLED stays DISABLED; a partial namespace with only a STRICT
  PeerAuthentication is ENABLED under a mesh whose destination rule is ISTIO_MUTUAL and
  PARTIALLY_ENABLED under a mesh whose destination rule is DISABLE; a partial namespace
  with only a DISABLE PeerAuthentication under that mesh is DISABLED.
\<close>

theorem OverallMtlsStatus_namespace_first_witness:
  "OverallMtlsStatus selectorStrictStatus
      \<lparr>DestinationRuleStatus = ''DISABLE'', PeerAuthenticationStatus = ''DISABLE'',
       OverallStatus = ''MTLS_DISABLED''\<rparr>
      \<lparr>DestinationRuleStatus = ''ISTIO_MUTUAL'', PeerAuthenticationStatus = ''STRICT'',
       OverallStatus = ''MTLS_ENABLED''\<rparr> = ''MTLS_DISABLED''
   \<and> OverallMtlsStatus selectorStrictStatus
      \<lparr>DestinationRuleStatus = '''', PeerAuthenticationStatus = ''STRICT'',
       OverallStatus = ''MTLS_PARTIALLY_ENABLED''\<rparr>
      \<lparr>DestinationRuleStatus = ''ISTIO_MUTUAL'', PeerAuthenticationStatus = '''',
       OverallStatus = ''MTLS_PARTIALLY_ENABLED''\<rparr> = ''MTLS_ENABLED''
   \<and> OverallMtlsStatus selectorStrictStatus
      \<lparr>DestinationRuleStatus = '''', PeerAuthenticationStatus = ''STRICT'',
       OverallStatus = ''MTLS_PARTIALLY_ENABLED''\<rparr>
      \<lparr>DestinationRuleStatus = ''DISABLE'', PeerAuthenticationStatus = '''',
       OverallStatus = ''MTLS_PARTIALLY_ENABLED''\<rparr> = ''MTLS_PARTIALLY_ENABLED''
   \<and> OverallMtlsStatus selectorStrictStatus
      \<lparr>DestinationRuleStatus = '''', PeerAuthenticationStatus = ''DISABLE'',
       OverallStatus = ''MTLS_PARTIALLY_ENABLED''\<rparr>
      \<lparr>DestinationRuleStatus = ''DISABLE'', PeerAuthenticationStatus = '''',
       OverallStatus = ''MTLS_PARTIALLY_ENABLED''\<rparr> = ''MTLS_DISABLED''"
proof -
  have a: "OverallMtlsStatus selectorStrictStatus
      \<lparr>DestinationRuleStatus = ''DISABLE'', PeerAuthenticationStatus = ''DISABLE'',
       OverallStatus = ''MTLS_DISABLED''\<rparr>
      \<lparr>DestinationRuleStatus = ''ISTIO_MUTUAL'', PeerAuthenticationStatus = ''STRICT'',
       OverallStatus = ''MTLS_ENABLED''\<rparr> = ''MTLS_DISABLED''"
    using OverallMtlsStatus_namespace_first [of
      "\<lparr>DestinationRuleStatus = ''DISABLE'', PeerAuthenticationStatus = ''DISABLE'',
        OverallStatus = ''MTLS_DISABLED''\<rparr>" selectorStrictStatus
      "\<lparr>DestinationRuleStatus = ''ISTIO_MUTUAL'', PeerAuthenticationStatus = ''STRICT'',
        OverallStatus = ''MTLS_ENABLED''\<rparr>"]
    by simp
  have b: "OverallMtlsStatus selectorStrictStatus
      \<lparr>DestinationRuleStatus = '''', PeerAuthenticationStatus = ''STRICT'',
       OverallStatus = ''MTLS_PARTIALLY_ENABLED''\<rparr>
      \<lparr>DestinationRuleStatus = ''ISTIO_MUTUAL'', PeerAuthenticationStatus = '''',
       OverallStatus = ''MTLS_PARTIALLY_ENABLED''\<rparr> = ''MTLS_ENABLED''"
    using OverallMtlsStatus_namespace_first [of
      "\<lparr>DestinationRuleStatus = '''', PeerAuthenticationStatus = ''STRICT'',
        OverallStatus = ''MTLS_PARTIALLY_ENABLED''\<rparr>" selectorStrictStatus
      "\<lparr>DestinationRuleStatus = ''ISTIO_MUTUAL'', PeerAuthenticationStatus = '''',
        OverallStatus = ''MTLS_PARTIALLY_ENABLED''\<rparr>"]
    by (simp add: Let_def selectorStrictStatus_def)
  have c: "OverallMtlsStatus selectorStrictStatus
      \<lparr>DestinationRuleStatus = '''', PeerAuthenticationStatus = ''STRICT'',
       OverallStatus = ''MTLS_PARTIALLY_ENABLED''\<rparr>
      \<lparr>DestinationRuleStatus = ''DISABLE'', PeerAuthenticationStatus = '''',
       OverallStatus = ''MTLS_PARTIALLY_ENABLED''\<rparr> = ''MTLS_PARTIALLY_ENABLED''"
    using OverallMtlsStatus_namespace_first [of
      "\<lparr>DestinationRuleStatus = '''', PeerAuthenticationStatus = ''STRICT'',
        OverallStatus = ''MTLS_PARTIALLY_ENABLED''\<rparr>" selectorStrictStatus
      "\<lparr>DestinationRuleStatus = ''DISABLE'', PeerAuthenticationStatus = '''',
        OverallStatus = ''MTLS_PARTIALLY_ENABLED''\<rparr>"]
    by (simp add: Let_def selectorStrictStatus_def)
  have d: "OverallMtlsStatus selectorStrictStatus
      \<lparr>DestinationRuleStatus = '''', PeerAuthenticationStatus = ''DISABLE'',
       OverallStatus = ''MTLS_PARTIALLY_ENABLED''\<rparr>
      \<lparr>DestinationRuleStatus = ''DISABLE'', PeerAuthenticationStatus = '''',
       OverallStatus = ''MTLS_PARTIALLY_ENABLED''\<rparr> = ''MTLS_DISABLED''"
    using OverallMtlsStatus_namespace_first [of
      "\<lparr>DestinationRuleStatus = '''', PeerAuthenticationStatus = ''DISABLE'',
        OverallStatus = ''MTLS_PARTIALLY_ENABLED''\<rparr>" selectorStrictStatus
      "\<lparr>DestinationRuleStatus = ''DISABLE'', PeerAuthenticationStatus = '''',
        OverallStatus = ''MTLS_PARTIALLY_ENABLED''\<rparr>"]
    by (simp add: Let_def selectorStrictStatus_def)
  from a b c d show ?thesis by (simp only: simp_thms)
qed

text \<open>
  C10. The recursion of \<^verbatim>\<open>OverallMtlsStatus\<close> ends after at most one substitution: the
  empty status is neither fully defined nor partial, so a call with the empty namespace
  status returns without a nested call (depth 1 is enough); \<^verbatim>\<open>inheritedOverallStatus\<close>
  returns within depth 2 and \<^verbatim>\<open>OverallMtlsStatus\<close> within depth 3, on every input, with
  the value of the total function.
\<close>

theorem OverallMtlsStatus_total:
  "\<not> hasDefinedTls TlsStatus_zero \<and> \<not> hasPartialTlsConfig TlsStatus_zero
   \<and> OverallMtlsStatus_depth 1 m TlsStatus_zero meshStatus
       = Some (OverallMtlsStatus m TlsStatus_zero meshStatus)
   \<and> inheritedOverallStatus_depth 2 m nsStatus meshStatus
       = Some (inheritedOverallStatus m nsStatus meshStatus)
   \<and> OverallMtlsStatus_depth 3 m nsStatus meshStatus
       = Some (OverallMtlsStatus m nsStatus meshStatus)"
proof -
  have one: "(1::nat) = Suc 0" and two: "(2::nat) = Suc (Suc 0)"
    and three: "(3::nat) = Suc (Suc (Suc 0))"
    by simp_all
  show ?thesis
    unfolding one two three
    by (simp only: TlsStatus_zero_not_defined TlsStatus_zero_not_partial
          OverallMtlsStatus_depth_zero_ns inheritedOverallStatus_depth_two
          OverallMtlsStatus_depth_three simp_thms)
qed

section \<open>IsExportedTo\<close>

lemma IsExportedTo_loop_iff:
  "IsExportedTo_loop ex r v
     = (\<exists>t\<in>set ex. t = ''*'' \<or> (t = ''.'' \<and> r = v) \<or> (t \<notin> {''*'', ''.'', ''~''} \<and> t = v))"
  by (induction ex) auto

text \<open>
  C8. \<^verbatim>\<open>IsExportedTo\<close> is true for the empty list; otherwise it is true exactly when some
  token matches, where \<^verbatim>\<open>*\<close> always matches, \<^verbatim>\<open>.\<close> matches when the resource namespace is
  the viewer namespace, \<^verbatim>\<open>~\<close> never matches, and any other token matches when it is the
  viewer namespace. The result is a boolean for every list: no token is rejected.
\<close>

theorem IsExportedTo_tokens:
  "IsExportedTo ex r v
     = (ex = [] \<or> (\<exists>t\<in>set ex. t = ''*'' \<or> (t = ''.'' \<and> r = v)
                                   \<or> (t \<notin> {''*'', ''.'', ''~''} \<and> t = v)))"
  by (simp add: IsExportedTo_def IsExportedTo_loop_iff)

section \<open>MatchPortNameRule\<close>

lemma strings_HasPrefix_iff: "strings_HasPrefix s p \<longleftrightarrow> (\<exists>r. s = p @ r)"
  unfolding strings_HasPrefix_def
  by (metis append_eq_conv_conj append_take_drop_id length_append le_add1)

text \<open>What the code accepts: after the protocol, a dash and any rest, the empty rest too.\<close>

lemma MatchPortNameRule_accepts:
  "MatchPortNameRule mapToLower portName protocol =
     (let p = strings_ToLower mapToLower protocol
      in p = ''tcp'' \<or> p = ''udp'' \<or> portName = p \<or> (\<exists>suffix. portName = p @ ''-'' @ suffix))"
  unfolding MatchPortNameRule_def Let_def portNameMatcher_MatchString_def
  using strings_HasPrefix_iff [of portName "strings_ToLower mapToLower protocol"]
  by (auto split: list.splits)

text \<open>
  C6. The claim has a name with a bare trailing dash after the protocol rejected; the
  code accepts it: \<^verbatim>\<open>MatchPortNameRule("http-", "http")\<close> is true, since the rest \<^verbatim>\<open>-\<close>
  matches \<^verbatim>\<open>^[\-].*\<close>.
\<close>

theorem MatchPortNameRule_bare_dash:
  "MatchPortNameRule mapToLower ''http-'' ''http'' = True
   \<and> MatchPortNameRule mapToLower ''http-'' ''HTTP'' = True"
  by (simp add: MatchPortNameRule_def strings_ToLower_def toLower_char_def strings_HasPrefix_def
      portNameMatcher_MatchString_def)

section \<open>The PeerAuthentication scans of namespace and mesh\<close>

lemma PeerAuthnHasMTLSEnabled_selector:
  "pa_Selector pa = Some sel \<Longrightarrow> PeerAuthnHasMTLSEnabled pa = (False, '''')"
  by (simp add: PeerAuthnHasMTLSEnabled_def)

lemma PeerAuthnHasMTLSEnabled_no_selector:
  "pa_Selector pa = None \<Longrightarrow> PeerAuthnHasMTLSEnabled pa = PeerAuthnMTLSMode pa"
  by (simp add: PeerAuthnHasMTLSEnabled_def)

lemma hasPeerAuthnNamespacemTLSDefinition_loop_filter:
  "hasPeerAuthnNamespacemTLSDefinition_loop (filter (\<lambda>p. pa_Selector p = None) pas)
     = hasPeerAuthnNamespacemTLSDefinition_loop pas"
  by (induction pas) (auto simp: PeerAuthnHasMTLSEnabled_selector Let_def)

lemma hasPeerAuthnMeshTLSDefinition_loop_filter:
  "hasPeerAuthnMeshTLSDefinition_loop (filter (\<lambda>p. pa_Selector p = None) pas)
     = hasPeerAuthnMeshTLSDefinition_loop pas"
  by (induction pas) (auto simp: PeerAuthnHasMTLSEnabled_selector Let_def)

lemma hasPeerAuthnNamespacemTLSDefinition_loop_find:
  "hasPeerAuthnNamespacemTLSDefinition_loop pas
     = (case List.find (\<lambda>p. snd (PeerAuthnHasMTLSEnabled p) \<noteq> '''') pas of
          None \<Rightarrow> '''' | Some p \<Rightarrow> snd (PeerAuthnHasMTLSEnabled p))"
  by (induction pas) (auto simp: Let_def)

lemma NamespaceMtlsStatus_pa:
  "PeerAuthenticationStatus (NamespaceMtlsStatus m ns conf)
     = hasPeerAuthnNamespacemTLSDefinition_loop (PeerAuthentications m)"
  by (simp add: NamespaceMtlsStatus_def finalStatus_def Let_def
        hasPeerAuthnNamespacemTLSDefinition_def)

lemma MeshMtlsStatus_pa:
  "PeerAuthenticationStatus (MeshMtlsStatus m)
     = hasPeerAuthnMeshTLSDefinition_loop (PeerAuthentications m)"
  by (simp add: MeshMtlsStatus_def Let_def hasPeerAuthnMeshTLSDefinition_def)

lemma PeerAuthnMTLSMode_fixtures:
  "PeerAuthnMTLSMode (peerAuthnWithSelector name ns labels ''STRICT'') = (True, ''STRICT'')"
  "PeerAuthnMTLSMode (peerAuthnNoSelector name ns ''STRICT'') = (True, ''STRICT'')"
  by (simp_all add: PeerAuthnMTLSMode_def peerAuthnWithSelector_def peerAuthnNoSelector_def)

text \<open>
  C4. For a PeerAuthentication whose selector is not nil, whatever its match labels (the
  guard on their number always holds), \<^verbatim>\<open>PeerAuthnHasMTLSEnabled\<close> returns the empty mode;
  so the scans of namespace and mesh give the same \<open>paStatus\<close> as on the list without
  the policies that have a selector.
\<close>

theorem PeerAuthnHasMTLSEnabled_ignores_selector_policies:
  "(pa_Selector pa = Some sel
      \<longrightarrow> 0 \<le> length (MatchLabels sel) \<and> PeerAuthnHasMTLSEnabled pa = (False, ''''))
   \<and> PeerAuthenticationStatus (NamespaceMtlsStatus m ns conf)
       = PeerAuthenticationStatus
           (NamespaceMtlsStatus
              (m\<lparr>PeerAuthentications := filter (\<lambda>p. pa_Selector p = None) (PeerAuthentications m)\<rparr>)
              ns conf)
   \<and> PeerAuthenticationStatus (MeshMtlsStatus m)
       = PeerAuthenticationStatus
           (MeshMtlsStatus
              (m\<lparr>PeerAuthentications := filter (\<lambda>p. pa_Selector p = None) (PeerAuthentications m)\<rparr>))"
  by (simp add: PeerAuthnHasMTLSEnabled_selector NamespaceMtlsStatus_pa MeshMtlsStatus_pa
        hasPeerAuthnNamespacemTLSDefinition_loop_filter hasPeerAuthnMeshTLSDefinition_loop_filter)

text \<open>
  The theorem at a STRICT policy whose selector has no match labels: its own mode is
  STRICT, \<^verbatim>\<open>PeerAuthnHasMTLSEnabled\<close> gives none, and both scans of the context that holds
  only this policy are empty.
\<close>

theorem PeerAuthnHasMTLSEnabled_ignores_selector_policies_witness:
  "snd (PeerAuthnMTLSMode (peerAuthnWithSelector ''pa-expressions'' ''bookinfo'' [] ''STRICT''))
     = ''STRICT''
   \<and> PeerAuthnHasMTLSEnabled (peerAuthnWithSelector ''pa-expressions'' ''bookinfo'' [] ''STRICT'')
     = (False, '''')
   \<and> PeerAuthenticationStatus (NamespaceMtlsStatus nilMatchLabelsStatus ''bookinfo'' NewConfig) = ''''
   \<and> PeerAuthenticationStatus (MeshMtlsStatus nilMatchLabelsStatus) = ''''"
  using PeerAuthnHasMTLSEnabled_ignores_selector_policies
    [of "peerAuthnWithSelector ''pa-expressions'' ''bookinfo'' [] ''STRICT''"
        "\<lparr>MatchLabels = []\<rparr>" nilMatchLabelsStatus "''bookinfo''" NewConfig]
  by (simp add: PeerAuthnMTLSMode_def PeerAuthnHasMTLSEnabled_def Let_def nilMatchLabelsStatus_def
        peerAuthnWithSelector_def NamespaceMtlsStatus_pa MeshMtlsStatus_pa)

text \<open>
  C3, as stated, fails: for the context whose only PeerAuthentication is STRICT and selects
  \<open>app=reviews\<close>, the first non-empty mode along the list is STRICT, and the
  namespace-level \<open>paStatus\<close> is empty, because the selector is consulted.
\<close>

theorem NamespaceMtlsStatus_selector_counterexample:
  "paStatus_without_selector_check (PeerAuthentications selectorStrictStatus) = ''STRICT''
   \<and> PeerAuthenticationStatus (NamespaceMtlsStatus selectorStrictStatus ''bookinfo'' NewConfig) = ''''"
  by (simp add: NamespaceMtlsStatus_pa selectorStrictStatus_def PeerAuthnMTLSMode_def
        PeerAuthnHasMTLSEnabled_def Let_def peerAuthnWithSelector_def)

text \<open>
  C3, amended. The namespace-level \<open>paStatus\<close> is the mode of the first policy in the
  list for which \<^verbatim>\<open>PeerAuthnHasMTLSEnabled\<close> yields a non-empty mode, and empty if there is
  none; \<^verbatim>\<open>PeerAuthnHasMTLSEnabled\<close> consults the selector before the mode: a policy
  without a selector yields its own mTLS mode, and a policy whose selector has match
  labels yields the empty mode and is passed over.
\<close>

theorem NamespaceMtlsStatus_paStatus:
  "PeerAuthenticationStatus (NamespaceMtlsStatus m ns conf)
     = (case List.find (\<lambda>p. snd (PeerAuthnHasMTLSEnabled p) \<noteq> '''') (PeerAuthentications m) of
          None \<Rightarrow> ''''
        | Some p \<Rightarrow> snd (PeerAuthnHasMTLSEnabled p))
   \<and> (\<forall>p. pa_Selector p = None \<longrightarrow> PeerAuthnHasMTLSEnabled p = PeerAuthnMTLSMode p)
   \<and> (\<forall>p sel. pa_Selector p = Some sel \<and> MatchLabels sel \<noteq> []
         \<longrightarrow> snd (PeerAuthnHasMTLSEnabled p) = '''')"
  by (simp add: NamespaceMtlsStatus_pa hasPeerAuthnNamespacemTLSDefinition_loop_find
        PeerAuthnHasMTLSEnabled_selector PeerAuthnHasMTLSEnabled_no_selector)

text \<open>
  The theorem at two contexts: a STRICT policy without a selector gives \<open>paStatus\<close>
  STRICT; a STRICT policy that selects \<open>app=reviews\<close> gives the empty \<open>paStatus\<close>.
\<close>

theorem NamespaceMtlsStatus_paStatus_witness:
  "PeerAuthenticationStatus (NamespaceMtlsStatus noSelectorStrictStatus ''bookinfo'' NewConfig)
     = ''STRICT''
   \<and> PeerAuthenticationStatus (NamespaceMtlsStatus selectorStrictStatus ''bookinfo'' NewConfig)
     = ''''"
proof -
  have a: "pa_Selector (peerAuthnNoSelector ''pa-ns'' ''bookinfo'' ''STRICT'') = None"
    by (simp add: peerAuthnNoSelector_def)
  have b: "pa_Selector (peerAuthnWithSelector ''pa1'' ''bookinfo'' [(''app'', ''reviews'')] ''STRICT'')
             = Some \<lparr>MatchLabels = [(''app'', ''reviews'')]\<rparr>"
    by (simp add: peerAuthnWithSelector_def)
  from NamespaceMtlsStatus_paStatus [of noSelectorStrictStatus "''bookinfo''" NewConfig] a
  have 1: "PeerAuthenticationStatus (NamespaceMtlsStatus noSelectorStrictStatus ''bookinfo'' NewConfig)
             = ''STRICT''"
    by (simp add: noSelectorStrictStatus_def PeerAuthnMTLSMode_fixtures)
  from NamespaceMtlsStatus_paStatus [of selectorStrictStatus "''bookinfo''" NewConfig] b
  have 2: "PeerAuthenticationStatus (NamespaceMtlsStatus selectorStrictStatus ''bookinfo'' NewConfig)
             = ''''"
    by (simp add: selectorStrictStatus_def)
  from 1 2 show ?thesis by simp
qed

section \<open>The workload status\<close>

lemma WorkloadMtlsStatus_svcs_pa_update:
  "WorkloadMtlsStatus_svcs f conf (m\<lparr>PeerAuthentications := x\<rparr>) ns sel svcs
     = WorkloadMtlsStatus_svcs f conf m ns sel svcs"
  by (induction svcs) (simp_all split: option.splits)

lemma WorkloadMtlsStatus_pas_pa_update:
  "WorkloadMtlsStatus_pas f conf (m\<lparr>PeerAuthentications := x\<rparr>) ns pas
     = WorkloadMtlsStatus_pas f conf m ns pas"
  by (induction pas) (simp_all add: WorkloadMtlsStatus_svcs_pa_update Let_def split: option.splits)

lemma WorkloadMtlsStatus_pas_filter:
  "WorkloadMtlsStatus_pas f conf m ns
      (filter (\<lambda>pa. case pa_Selector pa of None \<Rightarrow> False | Some sel \<Rightarrow> MatchLabels sel \<noteq> []) pas)
   = WorkloadMtlsStatus_pas f conf m ns pas"
  by (induction pas) (auto simp: Let_def split: option.splits)

lemma WorkloadMtlsStatus_pas_no_match:
  "(\<forall>pa\<in>set pas. case pa_Selector pa of
        None \<Rightarrow> True
      | Some sel \<Rightarrow> MatchLabels sel = [] \<or> \<not> selector_Matches (MatchLabels sel) (MatchingLabels m))
   \<Longrightarrow> WorkloadMtlsStatus_pas f conf m ns pas = MTLSNotEnabled"
  by (induction pas) (auto simp: Let_def split: option.splits)

text \<open>\<^verbatim>\<open>TestWorkloadMtlsStatusStrictPA\<close>: a STRICT policy that matches the workload gives
  ENABLED, so the workload status is not NOT_ENABLED throughout.\<close>

lemma WorkloadMtlsStatus_strict_match:
  "WorkloadMtlsStatus f selectorStrictStatus ''bookinfo'' NewConfig = ''MTLS_ENABLED''"
  by (simp add: WorkloadMtlsStatus_def selectorStrictStatus_def peerAuthnWithSelector_def
        selector_Matches_def PeerAuthnMTLSMode_def MTLSEnabled_def)

text \<open>
  C5. \<^verbatim>\<open>WorkloadMtlsStatus\<close> skips every PeerAuthentication whose selector is nil or has
  no match labels: the result is the one for the list without these policies, whatever
  the labels of the workload. And when no PeerAuthentication of the list matches the
  labels of the workload (its selector is nil, has no match labels, or does not match),
  the result is NOT_ENABLED.
\<close>

theorem WorkloadMtlsStatus_skips_underspecified:
  "WorkloadMtlsStatus f
      (m\<lparr>PeerAuthentications :=
            filter (\<lambda>pa. case pa_Selector pa of None \<Rightarrow> False | Some sel \<Rightarrow> MatchLabels sel \<noteq> [])
              (PeerAuthentications m)\<rparr>) ns conf
     = WorkloadMtlsStatus f m ns conf
   \<and> ((\<forall>pa\<in>set (PeerAuthentications m). case pa_Selector pa of
           None \<Rightarrow> True
         | Some sel \<Rightarrow> MatchLabels sel = []
                       \<or> \<not> selector_Matches (MatchLabels sel) (MatchingLabels m))
       \<longrightarrow> WorkloadMtlsStatus f m ns conf = ''MTLS_NOT_ENABLED'')"
  using WorkloadMtlsStatus_pas_no_match [of "PeerAuthentications m" m f conf ns]
  by (simp add: WorkloadMtlsStatus_def WorkloadMtlsStatus_pas_pa_update
        WorkloadMtlsStatus_pas_filter MTLSNotEnabled_def)

text \<open>
  The theorem at the context of \<^verbatim>\<open>TestWorkloadMtlsStatusNilMatchLabelsSkipped\<close> (a STRICT
  policy whose selector has no match labels, a workload labelled \<open>app=reviews\<close>): the
  status is NOT_ENABLED, and it is the status of the context without the policy.
\<close>

theorem WorkloadMtlsStatus_skips_underspecified_witness:
  "WorkloadMtlsStatus keepAllDRs nilMatchLabelsStatus ''bookinfo'' NewConfig = ''MTLS_NOT_ENABLED''
   \<and> WorkloadMtlsStatus keepAllDRs (nilMatchLabelsStatus\<lparr>PeerAuthentications := []\<rparr>)
        ''bookinfo'' NewConfig
     = WorkloadMtlsStatus keepAllDRs nilMatchLabelsStatus ''bookinfo'' NewConfig"
  using WorkloadMtlsStatus_skips_underspecified
    [of keepAllDRs nilMatchLabelsStatus "''bookinfo''" NewConfig]
  by (simp add: nilMatchLabelsStatus_def peerAuthnWithSelector_def)

section \<open>The index of service hosts\<close>

lemma store_body: "store (NewKubeServiceHosts_body d def h s) = store h @ [newEntry def s]"
  by (simp add: NewKubeServiceHosts_body_def Let_def)

lemma entries_body:
  "entries (NewKubeServiceHosts_body d def h s) k
     = (if k \<in> serviceKeys d s then Some (length (store h)) else entries h k)"
  by (simp add: NewKubeServiceHosts_body_def Let_def serviceKeys_def)



































lemma entries_foldl_domain:
  assumes "\<forall>s\<in>set svcs. k \<in> serviceKeys d s \<longleftrightarrow> k \<in> serviceKeys d' s"
    and "entries h k = entries h' k" and "length (store h) = length (store h')"
  shows "entries (foldl (NewKubeServiceHosts_body d def) h svcs) k
       = entries (foldl (NewKubeServiceHosts_body d' def) h' svcs) k"
  using assms
proof (induction svcs arbitrary: h h')
  case Nil
  then show ?case by simp
next
  case (Cons s svcs)
  have 1: "entries (NewKubeServiceHosts_body d def h s) k
         = entries (NewKubeServiceHosts_body d' def h' s) k"
    using Cons.prems by (simp add: entries_body)
  have 2: "length (store (NewKubeServiceHosts_body d def h s))
         = length (store (NewKubeServiceHosts_body d' def h' s))"
    using Cons.prems by (simp add: store_body)
  have 3: "\<forall>s\<in>set svcs. k \<in> serviceKeys d s \<longleftrightarrow> k \<in> serviceKeys d' s"
    using Cons.prems by simp
  from Cons.IH [OF 3 1 2] show ?case by simp
qed

lemma NewKubeServiceHosts_domain:
  assumes "k \<notin> fqdn_key (IstioIdentityDomain conf) ` set svcs"
    and "k \<notin> fqdn_key (IstioIdentityDomain conf') ` set svcs"
  shows "entries (NewKubeServiceHosts svcs conf def) k = entries (NewKubeServiceHosts svcs conf' def) k"
proof -
  have "\<forall>s\<in>set svcs. k \<in> serviceKeys (IstioIdentityDomain conf) s
                    \<longleftrightarrow> k \<in> serviceKeys (IstioIdentityDomain conf') s"
    using assms by (auto simp: serviceKeys_def)
  then show ?thesis
    unfolding NewKubeServiceHosts_def Let_def
    by (intro entries_foldl_domain) simp_all
qed

lemma distinct_owner:
  assumes d: "distinct (map (\<lambda>x. (svc_Name x, svc_Namespace x)) svcs)"
    and s: "s \<in> set svcs" and p: "p < length svcs"
    and eq: "svc_Name (svcs ! p) = svc_Name s" "svc_Namespace (svcs ! p) = svc_Namespace s"
  shows "svcs ! p = s"
proof -
  from s obtain i where i: "i < length svcs" "svcs ! i = s" by (auto simp: in_set_conv_nth)
  let ?m = "map (\<lambda>x. (svc_Name x, svc_Namespace x)) svcs"
  have "?m ! p = ?m ! i" using p i eq by simp
  with d p i have "p = i" by (metis length_map nth_eq_iff_index_eq)
  with i show ?thesis by simp
qed






section \<open>Keys, shared entries and the effective export list\<close>





end
